theory Spec2Isabelle
  imports Complex_Main
begin

section \<open>Conventions of the embedding\<close>

text \<open>
  The trading engine is written in Python. Its dictionaries are maps, its dataclasses are
  records, an exception that leaves a function is the \<open>Inl\<close> branch of a sum. Python
  \<open>float\<close> values are modelled as \<open>real\<close>: the properties below only compare and
  multiply finite numbers, and no statement here depends on rounding, on NaN or on infinities.
  Python \<open>int\<close> is \<open>int\<close>. Logging is omitted throughout.
\<close>

datatype error = KeyError | TypeError | AttributeError

text \<open>
  Decoded JSON: rule sources and the broker's answers. An object keeps its members in order;
  on a repeated key the last member wins, as in Python.
\<close>

datatype json =
    JNull
  | JBool bool
  | JNum real
  | JStr string
  | JArr "json list"
  | JObj "(string \<times> json) list"

section \<open>Events (package app.events)\<close>

text \<open>
  Modelled from the spec: the module \<open>app.events\<close> (the event dataclasses) is imported by the
  sources but is not among them. Each record has the fields that the constructor calls in
  \<open>app/risk\<close>, \<open>app/engine/core.py\<close> and \<open>app/execution\<close> pass, with the types of
  section 3 of the specification. The fields \<open>quantity\<close> and \<open>price\<close> of a fill are named
  \<open>fill_quantity\<close> and \<open>fill_price\<close>, since a field name is global here; for the same reason
  the fields of a block event carry the prefix \<open>rb_\<close>. A block event is built without a symbol,
  so it does not extend \<open>Event\<close>.
\<close>

record Event =
  user_id :: int
  strategy_id :: int
  symbol :: string

record SignalEvent = Event +
  signal :: string
  strength :: real

record OrderEvent = Event +
  order_type :: string
  side :: string
  quantity :: real
  price :: real
  client_order_id :: "string option"
  broker_order_id :: "json option"
  status :: string

record FillEvent = Event +
  order_id :: "json option"
  fill_quantity :: real
  fill_price :: real
  commission :: real
  is_partial :: bool

text \<open>
  The reason of a block is an f-string: a fixed text followed, for the two limit checks, by a
  formatted number. The text and the number are kept apart.
\<close>

datatype reason_arg = NoArg | FloatArg real | IntArg int

record RiskBlockEvent =
  rb_user_id :: int
  rb_strategy_id :: int
  reason :: string
  reason_value :: reason_arg
  rb_signal :: "SignalEvent option"

section \<open>Risk engine (app/risk/__init__.py)\<close>

record RiskConfig =
  max_daily_loss :: real
  max_trades_per_day :: int
  max_position_size :: real
  max_leverage :: real
  kill_switch_enabled :: bool

definition RiskConfig_default :: RiskConfig where
  "RiskConfig_default =
     \<lparr>max_daily_loss = 5000, max_trades_per_day = 50, max_position_size = 100000,
      max_leverage = 1, kill_switch_enabled = True\<rparr>"

record RiskEngine =
  configs :: "int \<rightharpoonup> RiskConfig"
  daily_loss :: "int \<rightharpoonup> real"
  trade_count :: "int \<rightharpoonup> int"

definition RiskEngine_init :: RiskEngine where
  "RiskEngine_init = \<lparr>configs = Map.empty, daily_loss = Map.empty, trade_count = Map.empty\<rparr>"

definition register_strategy :: "RiskEngine \<Rightarrow> int \<Rightarrow> RiskConfig \<Rightarrow> RiskEngine" where
  "register_strategy st sid config =
     st\<lparr>configs := (configs st)(sid \<mapsto> config),
        daily_loss := (daily_loss st)(sid \<mapsto> 0),
        trade_count := (trade_count st)(sid \<mapsto> 0)\<rparr>"

text \<open>
  \<open>validate_signal\<close> returns \<open>None\<close> when the signal is allowed and a block event otherwise.
  The subscripts \<open>self.daily_loss[strategy_id]\<close> and \<open>self.trade_count[strategy_id]\<close> raise
  \<open>KeyError\<close> on a missing key; the second one is only reached when the loss check passed.
\<close>

definition validate_signal :: "RiskEngine \<Rightarrow> SignalEvent \<Rightarrow> error + RiskBlockEvent option" where
  "validate_signal st sg =
     (let sid = strategy_id sg in
      case configs st sid of
        None \<Rightarrow>
          Inr (Some \<lparr>rb_user_id = user_id sg, rb_strategy_id = sid,
                     reason = ''Strategy not registered'', reason_value = NoArg,
                     rb_signal = None\<rparr>)
      | Some config \<Rightarrow>
          (case daily_loss st sid of
             None \<Rightarrow> Inl KeyError
           | Some loss \<Rightarrow>
               if loss \<ge> max_daily_loss config then
                 Inr (Some \<lparr>rb_user_id = user_id sg, rb_strategy_id = sid,
                            reason = ''Daily loss limit reached: '', reason_value = FloatArg loss,
                            rb_signal = Some sg\<rparr>)
               else
                 (case trade_count st sid of
                    None \<Rightarrow> Inl KeyError
                  | Some cnt \<Rightarrow>
                      if cnt \<ge> max_trades_per_day config then
                        Inr (Some \<lparr>rb_user_id = user_id sg, rb_strategy_id = sid,
                                   reason = ''Max trades per day reached: '',
                                   reason_value = IntArg cnt, rb_signal = Some sg\<rparr>)
                      else Inr None)))"

definition record_loss :: "RiskEngine \<Rightarrow> int \<Rightarrow> real \<Rightarrow> RiskEngine" where
  "record_loss st sid loss =
     (case daily_loss st sid of
        None \<Rightarrow> st
      | Some acc \<Rightarrow> st\<lparr>daily_loss := (daily_loss st)(sid \<mapsto> acc + loss)\<rparr>)"

definition record_trade :: "RiskEngine \<Rightarrow> int \<Rightarrow> RiskEngine" where
  "record_trade st sid =
     (case trade_count st sid of
        None \<Rightarrow> st
      | Some cnt \<Rightarrow> st\<lparr>trade_count := (trade_count st)(sid \<mapsto> cnt + 1)\<rparr>)"

definition reset_daily :: "RiskEngine \<Rightarrow> int \<Rightarrow> RiskEngine" where
  "reset_daily st sid =
     (case daily_loss st sid of
        None \<Rightarrow> st
      | Some _ \<Rightarrow> st\<lparr>daily_loss := (daily_loss st)(sid \<mapsto> 0),
                      trade_count := (trade_count st)(sid \<mapsto> 0)\<rparr>)"

text \<open>
  The three dictionaries are only ever written by the operations above, so in every state the
  engine can be in they have the same keys.
\<close>

definition risk_consistent :: "RiskEngine \<Rightarrow> bool" where
  "risk_consistent st \<longleftrightarrow>
     dom (daily_loss st) = dom (configs st) \<and> dom (trade_count st) = dom (configs st)"

datatype risk_op =
    Register int RiskConfig
  | RecordLoss int real
  | RecordTrade int
  | ResetDaily int

fun risk_step :: "RiskEngine \<Rightarrow> risk_op \<Rightarrow> RiskEngine" where
  "risk_step st (Register sid config) = register_strategy st sid config"
| "risk_step st (RecordLoss sid loss) = record_loss st sid loss"
| "risk_step st (RecordTrade sid) = record_trade st sid"
| "risk_step st (ResetDaily sid) = reset_daily st sid"

definition risk_run :: "risk_op list \<Rightarrow> RiskEngine" where
  "risk_run ops = foldl risk_step RiskEngine_init ops"

definition is_allowed :: "error + RiskBlockEvent option \<Rightarrow> bool" where
  "is_allowed res \<longleftrightarrow> res = Inr None"

definition blocked_with :: "error + RiskBlockEvent option \<Rightarrow> string \<Rightarrow> bool" where
  "blocked_with res txt \<longleftrightarrow>
     (case res of Inr (Some b) \<Rightarrow> reason b = txt | _ \<Rightarrow> False)"

section \<open>Rule engine (app/engine/rules.py)\<close>

text \<open>
  A rule arrives as JSON text. \<open>json.loads\<close> belongs to the Python library; the document it
  returns is a \<open>json\<close> value, and the decoder itself is a parameter \<open>loads\<close> of the parser
  (\<open>None\<close> when it raises).
\<close>

definition obj_get :: "(string \<times> json) list \<Rightarrow> string \<Rightarrow> json option" where
  "obj_get kvs k = map_of (rev kvs) k"

definition obj_get_default :: "(string \<times> json) list \<Rightarrow> string \<Rightarrow> json \<Rightarrow> json" where
  "obj_get_default kvs k d = (case obj_get kvs k of None \<Rightarrow> d | Some v \<Rightarrow> v)"

text \<open>\<open>str.upper\<close>, on the ASCII letters.\<close>

definition upper_char :: "char \<Rightarrow> char" where
  "upper_char c =
     (case map_of (zip ''abcdefghijklmnopqrstuvwxyz'' ''ABCDEFGHIJKLMNOPQRSTUVWXYZ'') c of
        None \<Rightarrow> c
      | Some u \<Rightarrow> u)"

definition upper :: "string \<Rightarrow> string" where
  "upper s = map upper_char s"

record RuleCondition =
  left :: json
  op :: json
  right :: json

text \<open>
  \<open>_resolve_value\<close>: \<open>float(expr)\<close> succeeds on a number and on a boolean, raises
  \<open>TypeError\<close> on \<open>None\<close>, a list or a dictionary, and on a string either parses it or raises
  the \<open>ValueError\<close> that the function catches. The parser of numeric strings is the parameter
  \<open>pf\<close>, with \<open>None\<close> for the \<open>ValueError\<close>; the texts that Python reads as NaN or as an
  infinity have no value here. \<open>indicator_key\<close> is \<open>expr.replace("(", "_").replace(")", "")\<close>
  and \<open>data_key\<close> is the key that is looked up in the snapshot.
\<close>

definition indicator_key :: "string \<Rightarrow> string" where
  "indicator_key expr =
     filter (\<lambda>c. c \<noteq> CHR '')'') (map (\<lambda>c. if c = CHR ''('' then CHR ''_'' else c) expr)"

definition data_key :: "string \<Rightarrow> string" where
  "data_key expr =
     (if CHR ''('' \<in> set expr \<and> CHR '')'' \<in> set expr then indicator_key expr else expr)"

definition resolve_value ::
  "(string \<Rightarrow> real option) \<Rightarrow> json \<Rightarrow> (string \<rightharpoonup> real) \<Rightarrow> error + real option" where
  "resolve_value pf expr data =
     (case expr of
        JNum r \<Rightarrow> Inr (Some r)
      | JBool b \<Rightarrow> Inr (Some (if b then 1 else 0))
      | JStr s \<Rightarrow>
          (case pf s of
             Some r \<Rightarrow> Inr (Some r)
           | None \<Rightarrow> Inr (data (data_key s)))
      | _ \<Rightarrow> Inl TypeError)"

definition cross_above :: "real \<Rightarrow> real \<Rightarrow> (string \<rightharpoonup> real) \<Rightarrow> bool" where
  "cross_above l r data \<longleftrightarrow> l > r"

definition cross_below :: "real \<Rightarrow> real \<Rightarrow> (string \<rightharpoonup> real) \<Rightarrow> bool" where
  "cross_below l r data \<longleftrightarrow> l < r"

text \<open>
  \<open>RuleCondition.evaluate\<close>. Both operands are resolved before either is tested, and
  \<open>self.op.upper()\<close> raises \<open>AttributeError\<close> when the operator is not a string.
\<close>

definition condition_evaluate ::
  "(string \<Rightarrow> real option) \<Rightarrow> RuleCondition \<Rightarrow> (string \<rightharpoonup> real) \<Rightarrow> error + bool" where
  "condition_evaluate pf c data =
     (case resolve_value pf (left c) data of
        Inl e \<Rightarrow> Inl e
      | Inr left_val \<Rightarrow>
          (case resolve_value pf (right c) data of
             Inl e \<Rightarrow> Inl e
           | Inr right_val \<Rightarrow>
               (case (left_val, right_val) of
                  (Some l, Some r) \<Rightarrow>
                    (case op c of
                       JStr opn \<Rightarrow>
                         (let opu = upper opn in
                          if opu = ''=='' then Inr (l = r)
                          else if opu = ''!='' then Inr (l \<noteq> r)
                          else if opu = ''<'' then Inr (l < r)
                          else if opu = ''<='' then Inr (l \<le> r)
                          else if opu = ''>'' then Inr (l > r)
                          else if opu = ''>='' then Inr (l \<ge> r)
                          else if opu = ''CROSS_ABOVE'' then Inr (cross_above l r data)
                          else if opu = ''CROSS_BELOW'' then Inr (cross_below l r data)
                          else Inr False)
                     | _ \<Rightarrow> Inl AttributeError)
                | _ \<Rightarrow> Inr False)))"

record Rule =
  name :: json
  conditions :: "RuleCondition list"
  action :: string
  operator :: string

text \<open>
  \<open>Rule.__init__\<close>. The comprehension subscripts every element of \<open>conditions\<close> with the
  three keys: a missing key is a \<open>KeyError\<close>, an element that is not a dictionary a
  \<open>TypeError\<close>. Iterating a string yields its characters and iterating a dictionary its keys,
  which are strings; iterating a number, a boolean or \<open>None\<close> is a \<open>TypeError\<close>.
\<close>

definition condition_of_json :: "json \<Rightarrow> error + RuleCondition" where
  "condition_of_json c =
     (case c of
        JObj kvs \<Rightarrow>
          (case obj_get kvs ''left'' of
             None \<Rightarrow> Inl KeyError
           | Some l \<Rightarrow>
               (case obj_get kvs ''op'' of
                  None \<Rightarrow> Inl KeyError
                | Some opn \<Rightarrow>
                    (case obj_get kvs ''right'' of
                       None \<Rightarrow> Inl KeyError
                     | Some r \<Rightarrow> Inr \<lparr>left = l, op = opn, right = r\<rparr>)))
      | _ \<Rightarrow> Inl TypeError)"

fun conditions_of_list :: "json list \<Rightarrow> error + RuleCondition list" where
  "conditions_of_list [] = Inr []"
| "conditions_of_list (c # cs) =
     (case condition_of_json c of
        Inl e \<Rightarrow> Inl e
      | Inr rc \<Rightarrow>
          (case conditions_of_list cs of
             Inl e \<Rightarrow> Inl e
           | Inr rcs \<Rightarrow> Inr (rc # rcs)))"

definition conditions_of_json :: "json \<Rightarrow> error + RuleCondition list" where
  "conditions_of_json cs =
     (case cs of
        JArr xs \<Rightarrow> conditions_of_list xs
      | JStr s \<Rightarrow> conditions_of_list (map (\<lambda>ch. JStr [ch]) s)
      | JObj kvs \<Rightarrow> conditions_of_list (map (\<lambda>k. JStr k) (remdups (map fst kvs)))
      | _ \<Rightarrow> Inl TypeError)"

definition Rule_init :: "json \<Rightarrow> json \<Rightarrow> json \<Rightarrow> json \<Rightarrow> error + Rule" where
  "Rule_init nm conds act oper =
     (case conditions_of_json conds of
        Inl e \<Rightarrow> Inl e
      | Inr cs \<Rightarrow>
          (case act of
             JStr a \<Rightarrow>
               (case oper of
                  JStr opn \<Rightarrow>
                    Inr \<lparr>name = nm, conditions = cs, action = upper a, operator = upper opn\<rparr>
                | _ \<Rightarrow> Inl AttributeError)
           | _ \<Rightarrow> Inl AttributeError))"

text \<open>
  \<open>Rule.evaluate\<close>. The list of results is built first, so every condition is evaluated and
  the first one that raises ends the evaluation.
\<close>

fun evaluate_conditions ::
  "(string \<Rightarrow> real option) \<Rightarrow> RuleCondition list \<Rightarrow> (string \<rightharpoonup> real) \<Rightarrow> error + bool list" where
  "evaluate_conditions pf [] data = Inr []"
| "evaluate_conditions pf (c # cs) data =
     (case condition_evaluate pf c data of
        Inl e \<Rightarrow> Inl e
      | Inr b \<Rightarrow>
          (case evaluate_conditions pf cs data of
             Inl e \<Rightarrow> Inl e
           | Inr bs \<Rightarrow> Inr (b # bs)))"

definition rule_evaluate ::
  "(string \<Rightarrow> real option) \<Rightarrow> Rule \<Rightarrow> (string \<rightharpoonup> real) \<Rightarrow> error + bool" where
  "rule_evaluate pf r data =
     (if conditions r = [] then Inr False
      else
        (case evaluate_conditions pf (conditions r) data of
           Inl e \<Rightarrow> Inl e
         | Inr results \<Rightarrow>
             if operator r = ''AND'' then Inr (list_all (\<lambda>b. b) results)
             else if operator r = ''OR'' then Inr (list_ex (\<lambda>b. b) results)
             else Inr False))"

text \<open>
  The engine's dictionary of rules keeps insertion order, which decides the order of
  \<open>evaluate_all\<close>: it is an association list with distinct keys, where storing under an
  existing key replaces the value in place and a new key goes to the end.
\<close>

record RuleEngine =
  rules :: "(int \<times> Rule) list"

definition RuleEngine_init :: RuleEngine where
  "RuleEngine_init = \<lparr>rules = []\<rparr>"

fun dict_set :: "('k \<times> 'v) list \<Rightarrow> 'k \<Rightarrow> 'v \<Rightarrow> ('k \<times> 'v) list" where
  "dict_set [] k v = [(k, v)]"
| "dict_set ((k', v') # kvs) k v =
     (if k' = k then (k, v) # kvs else (k', v') # dict_set kvs k v)"

definition parse_rule_json :: "(string \<Rightarrow> json option) \<Rightarrow> string \<Rightarrow> Rule option" where
  "parse_rule_json loads rule_json =
     (case loads rule_json of
        None \<Rightarrow> None
      | Some (JObj kvs) \<Rightarrow>
          (case Rule_init (obj_get_default kvs ''name'' (JStr ''Unnamed''))
                          (obj_get_default kvs ''conditions'' (JArr []))
                          (obj_get_default kvs ''action'' (JStr ''NONE''))
                          (obj_get_default kvs ''operator'' (JStr ''AND'')) of
             Inl e \<Rightarrow> None
           | Inr r \<Rightarrow> Some r)
      | Some _ \<Rightarrow> None)"

definition register_rule ::
  "(string \<Rightarrow> json option) \<Rightarrow> RuleEngine \<Rightarrow> int \<Rightarrow> string \<Rightarrow> RuleEngine \<times> bool" where
  "register_rule loads eng rule_id rule_json =
     (case parse_rule_json loads rule_json of
        Some r \<Rightarrow> (eng\<lparr>rules := dict_set (rules eng) rule_id r\<rparr>, True)
      | None \<Rightarrow> (eng, False))"

definition evaluate ::
  "(string \<Rightarrow> real option) \<Rightarrow> RuleEngine \<Rightarrow> int \<Rightarrow> (string \<rightharpoonup> real) \<Rightarrow> error + string" where
  "evaluate pf eng rule_id market_data =
     (case map_of (rules eng) rule_id of
        None \<Rightarrow> Inr ''NONE''
      | Some r \<Rightarrow>
          (case rule_evaluate pf r market_data of
             Inl e \<Rightarrow> Inl e
           | Inr b \<Rightarrow> if b then Inr (action r) else Inr ''NONE''))"

fun evaluate_items ::
  "(string \<Rightarrow> real option) \<Rightarrow> (int \<times> Rule) list \<Rightarrow> (string \<rightharpoonup> real) \<Rightarrow>
     error + (int \<times> string) list" where
  "evaluate_items pf [] market_data = Inr []"
| "evaluate_items pf ((rule_id, r) # items) market_data =
     (case rule_evaluate pf r market_data of
        Inl e \<Rightarrow> Inl e
      | Inr b \<Rightarrow>
          (case evaluate_items pf items market_data of
             Inl e \<Rightarrow> Inl e
           | Inr results \<Rightarrow> Inr ((rule_id, if b then ''BUY'' else ''NONE'') # results)))"

definition evaluate_all ::
  "(string \<Rightarrow> real option) \<Rightarrow> RuleEngine \<Rightarrow> (string \<rightharpoonup> real) \<Rightarrow> error + (int \<times> string) list" where
  "evaluate_all pf eng market_data = evaluate_items pf (rules eng) market_data"

section \<open>Kill switch (app/api/__init__.py)\<close>

datatype OrderStatus = CREATED | VALIDATED | SENT | ACK | PARTIAL | FILLED | REJECTED | CANCELED

text \<open>
  A row of the table \<open>orders\<close> (class \<open>Order\<close> of app/models); the columns carry the prefix
  \<open>o_\<close>. The table is the list of its rows, and the session's query filters that list.
\<close>

record Order =
  o_id :: int
  o_user_id :: int
  o_strategy_id :: int
  o_symbol :: string
  o_order_type :: string
  o_side :: string
  o_quantity :: real
  o_price :: real
  o_status :: OrderStatus
  o_client_order_id :: string
  o_broker_order_id :: string
  o_filled_quantity :: real

definition active_states :: "OrderStatus list" where
  "active_states = [CREATED, VALIDATED, SENT, ACK, PARTIAL]"

definition is_active_order :: "int \<Rightarrow> Order \<Rightarrow> bool" where
  "is_active_order uid row \<longleftrightarrow> o_user_id row = uid \<and> o_status row \<in> set active_states"

text \<open>
  The loop over the selected rows: each one is set to \<open>CANCELED\<close> and counted. A row that
  the query did not select is left as it is.
\<close>

fun cancel_loop :: "int \<Rightarrow> Order list \<Rightarrow> int \<Rightarrow> Order list \<times> int" where
  "cancel_loop uid [] cancelled = ([], cancelled)"
| "cancel_loop uid (row # rows) cancelled =
     (if is_active_order uid row then
        (let (rows', n) = cancel_loop uid rows (cancelled + 1)
         in (row\<lparr>o_status := CANCELED\<rparr> # rows', n))
      else
        (let (rows', n) = cancel_loop uid rows cancelled
         in (row # rows', n)))"

record kill_switch_response =
  ks_status :: string
  orders_cancelled :: int

definition activate_kill_switch :: "int \<Rightarrow> Order list \<Rightarrow> Order list \<times> kill_switch_response" where
  "activate_kill_switch uid db =
     (let (db', cancelled) = cancel_loop uid db 0
      in (db', \<lparr>ks_status = ''kill_switch_activated'', orders_cancelled = cancelled\<rparr>))"

section \<open>Execution handlers (app/execution/__init__.py)\<close>

subsection \<open>Paper trading\<close>

record PaperExecutionHandler =
  slippage_percent :: real
  partial_fill_chance :: real

definition PaperExecutionHandler_init :: PaperExecutionHandler where
  "PaperExecutionHandler_init = \<lparr>slippage_percent = 5 / 100, partial_fill_chance = 10 / 100\<rparr>"

text \<open>
  The two random draws that decide the fill are arguments: \<open>rnd\<close> is \<open>random.random()\<close>, in
  the interval from 0 to 1 without 1, and \<open>fraction\<close> is \<open>random.uniform(0.5, 0.9)\<close>. The
  simulated delay has no effect on the result.
\<close>

definition paper_execute_order ::
  "PaperExecutionHandler \<Rightarrow> real \<Rightarrow> real \<Rightarrow> OrderEvent \<Rightarrow> FillEvent" where
  "paper_execute_order h rnd fraction order =
     (let fp = (if side order = ''BUY''
                then price order * (1 + slippage_percent h / 100)
                else price order * (1 - slippage_percent h / 100));
          partial = (rnd < partial_fill_chance h);
          filled_qty = (if partial then quantity order * fraction else quantity order);
          comm = (filled_qty * fp) * (5 / 10000)
      in \<lparr>user_id = user_id order, strategy_id = strategy_id order, symbol = symbol order,
          order_id = map_option JStr (client_order_id order),
          fill_quantity = filled_qty, fill_price = fp, commission = comm,
          is_partial = partial\<rparr>)"

subsection \<open>Live trading through the broker client (app/broker/__init__.py)\<close>

record payload =
  p_symbol :: string
  p_qty :: int
  p_type :: int
  p_side :: int
  p_productType :: string
  p_priceType :: string
  p_price :: real
  p_clientId :: "string option"

text \<open>
  The broker's HTTP service is outside the program. It is a pair of functions on a state
  \<open>'srv\<close> of the service; \<open>None\<close> stands for a request that raised (a transport failure or an
  HTTP error status), otherwise the decoded members of the answer are given. The client turns
  a request that raised into a dictionary with the status "error"; its member "message", the
  text of the exception, is left out.
\<close>

record 'srv http =
  post_place :: "'srv \<Rightarrow> payload \<Rightarrow> 'srv \<times> (string \<times> json) list option"
  get_order :: "'srv \<Rightarrow> json option \<Rightarrow> 'srv \<times> (string \<times> json) list option"

record FyersClient =
  access_token :: "string option"

definition not_authenticated :: "(string \<times> json) list" where
  "not_authenticated = [(''status'', JStr ''error''), (''message'', JStr ''Not authenticated'')]"

definition request_failed :: "(string \<times> json) list" where
  "request_failed = [(''status'', JStr ''error'')]"

definition falsy :: "string option \<Rightarrow> bool" where
  "falsy s \<longleftrightarrow> s = None \<or> s = Some []"

definition place_order ::
  "'srv http \<Rightarrow> FyersClient \<Rightarrow> 'srv \<Rightarrow> string \<Rightarrow> string \<Rightarrow> string \<Rightarrow> int \<Rightarrow> real \<Rightarrow>
     string option \<Rightarrow> 'srv \<times> (string \<times> json) list" where
  "place_order net client srv smb otype sd qty prc coid =
     (if falsy (access_token client) then (srv, not_authenticated)
      else
        (let pl = \<lparr>p_symbol = smb, p_qty = qty,
                   p_type = (if otype = ''MARKET'' then 1 else 2),
                   p_side = (if sd = ''BUY'' then 1 else - 1),
                   p_productType = ''MIS'',
                   p_priceType = (if otype = ''MARKET'' then ''0'' else ''1''),
                   p_price = prc,
                   p_clientId = (if falsy coid then None else coid)\<rparr>
         in case post_place net srv pl of
              (srv', None) \<Rightarrow> (srv', request_failed)
            | (srv', Some order_data) \<Rightarrow> (srv', order_data)))"

definition get_order_status ::
  "'srv http \<Rightarrow> FyersClient \<Rightarrow> 'srv \<Rightarrow> json option \<Rightarrow> 'srv \<times> (string \<times> json) list" where
  "get_order_status net client srv oid =
     (if falsy (access_token client) then (srv, not_authenticated)
      else
        (case get_order net srv oid of
           (srv', None) \<Rightarrow> (srv', request_failed)
         | (srv', Some answer) \<Rightarrow> (srv', answer)))"

text \<open>\<open>int(order.quantity)\<close> truncates towards zero.\<close>

definition py_int :: "real \<Rightarrow> int" where
  "py_int x = (if x \<ge> 0 then \<lfloor>x\<rfloor> else \<lceil>x\<rceil>)"

text \<open>An operand of the product for the commission: anything but a number raises.\<close>

definition number_of :: "json \<Rightarrow> error + real" where
  "number_of v =
     (case v of
        JNum r \<Rightarrow> Inr r
      | JBool b \<Rightarrow> Inr (if b then 1 else 0)
      | _ \<Rightarrow> Inl TypeError)"

text \<open>
  \<open>LiveFyersExecutionHandler.execute_order\<close>. \<open>fresh\<close> is the hexadecimal text of
  \<open>uuid.uuid4()\<close>. The order is returned too, since the handler writes its two identifiers.
\<close>

definition live_execute_order ::
  "'srv http \<Rightarrow> string \<Rightarrow> FyersClient \<Rightarrow> 'srv \<Rightarrow> OrderEvent \<Rightarrow>
     error + ('srv \<times> OrderEvent \<times> FillEvent option)" where
  "live_execute_order net fresh client srv order0 =
     (let order1 = (if falsy (client_order_id order0)
                    then order0\<lparr>client_order_id := Some (''order_'' @ take 12 fresh)\<rparr>
                    else order0);
          (srv1, result) =
             place_order net client srv (symbol order1) (order_type order1) (side order1)
               (py_int (quantity order1))
               (if order_type order1 = ''LIMIT'' then price order1 else 0)
               (client_order_id order1)
      in if obj_get result ''status'' \<noteq> Some (JStr ''success'') then Inr (srv1, order1, None)
         else
           (let boid = obj_get result ''id'';
                order2 = order1\<lparr>broker_order_id := boid\<rparr>;
                (srv2, stat) = get_order_status net client srv1 boid
            in case number_of (obj_get_default stat ''filledqty'' (JNum 0)) of
                 Inl e \<Rightarrow> Inl e
               | Inr filled_qty \<Rightarrow>
                   (case number_of (obj_get_default stat ''price'' (JNum (price order2))) of
                      Inl e \<Rightarrow> Inl e
                    | Inr fp \<Rightarrow>
                        Inr (srv2, order2,
                             Some \<lparr>user_id = user_id order2, strategy_id = strategy_id order2,
                                   symbol = symbol order2, order_id = boid,
                                   fill_quantity = filled_qty, fill_price = fp,
                                   commission = (filled_qty * fp) * (5 / 10000),
                                   is_partial = (obj_get stat ''status'' = Some (JStr ''PARTIAL''))\<rparr>))))"

section \<open>Orchestrator (app/engine/core.py)\<close>

text \<open>
  The state of \<open>TradingEngine\<close> that the handlers of events read and write. The event queue
  and the execution handler are left out: the fill handler does not touch them.
\<close>

record TradingEngine =
  rule_engine :: RuleEngine
  risk_engine :: RiskEngine
  running :: bool
  positions :: "string \<rightharpoonup> real"

definition TradingEngine_init :: TradingEngine where
  "TradingEngine_init =
     \<lparr>rule_engine = RuleEngine_init, risk_engine = RiskEngine_init, running = False,
      positions = Map.empty\<rparr>"

definition on_fill_event :: "TradingEngine \<Rightarrow> FillEvent \<Rightarrow> TradingEngine" where
  "on_fill_event eng event =
     (let current = (case positions eng (symbol event) of None \<Rightarrow> 0 | Some q \<Rightarrow> q)
      in eng\<lparr>positions := (positions eng)(symbol event \<mapsto> current + fill_quantity event),
             risk_engine := record_trade (risk_engine eng) (strategy_id event)\<rparr>)"

section \<open>Example inputs\<close>

definition risk_state_example :: RiskEngine where
  "risk_state_example =
     record_trade (record_trade
       (register_strategy RiskEngine_init 1 (RiskConfig_default\<lparr>max_trades_per_day := 2\<rparr>)) 1) 1"

definition signal_example :: SignalEvent where
  "signal_example =
     \<lparr>user_id = 1, strategy_id = 1, symbol = ''NSE:SBIN-EQ'', signal = ''BUY'', strength = 8 / 10\<rparr>"

definition order_row :: "int \<Rightarrow> int \<Rightarrow> OrderStatus \<Rightarrow> Order" where
  "order_row oid uid st =
     \<lparr>o_id = oid, o_user_id = uid, o_strategy_id = 1, o_symbol = ''NSE:SBIN-EQ'',
      o_order_type = ''MARKET'', o_side = ''BUY'', o_quantity = 10, o_price = 100,
      o_status = st, o_client_order_id = ''c'', o_broker_order_id = ''b'',
      o_filled_quantity = 0\<rparr>"

definition orders_example :: "Order list" where
  "orders_example =
     [order_row 1 7 SENT, order_row 2 7 FILLED, order_row 3 8 ACK, order_row 4 7 PARTIAL]"

definition buy_order_example :: OrderEvent where
  "buy_order_example =
     \<lparr>user_id = 1, strategy_id = 1, symbol = ''NSE:SBIN-EQ'', order_type = ''MARKET'',
      side = ''BUY'', quantity = 10, price = 100, client_order_id = Some ''order_1'',
      broker_order_id = None, status = ''CREATED''\<rparr>"

definition paper_no_partial :: PaperExecutionHandler where
  "paper_no_partial = PaperExecutionHandler_init\<lparr>partial_fill_chance := 0\<rparr>"

definition sell_order_example :: OrderEvent where
  "sell_order_example = buy_order_example\<lparr>side := ''SELL''\<rparr>"

definition engine_example :: TradingEngine where
  "engine_example =
     TradingEngine_init\<lparr>risk_engine := register_strategy RiskEngine_init 1 RiskConfig_default\<rparr>"

definition sell_fill_example :: FillEvent where
  "sell_fill_example = paper_execute_order paper_no_partial (3 / 10) (7 / 10) sell_order_example"

definition buy_fill_example :: FillEvent where
  "buy_fill_example = paper_execute_order paper_no_partial (3 / 10) (7 / 10) buy_order_example"

text \<open>
  The placement that \<open>place_order\<close> builds from the arguments that the live handler passes
  for an order.
\<close>

definition order_payload :: "OrderEvent \<Rightarrow> payload" where
  "order_payload order =
     \<lparr>p_symbol = symbol order, p_qty = py_int (quantity order),
      p_type = (if order_type order = ''MARKET'' then 1 else 2),
      p_side = (if side order = ''BUY'' then 1 else - 1),
      p_productType = ''MIS'',
      p_priceType = (if order_type order = ''MARKET'' then ''0'' else ''1''),
      p_price = (if order_type order = ''LIMIT'' then price order else 0),
      p_clientId = client_order_id order\<rparr>"

text \<open>
  Two broker services, whose state is the list of the placements received: one accepts every
  placement, the other refuses a client identifier that it has seen.
\<close>

definition accept_post ::
  "payload list \<Rightarrow> payload \<Rightarrow> payload list \<times> (string \<times> json) list option" where
  "accept_post received pl =
     (received @ [pl],
      Some [(''status'', JStr ''success''), (''id'', JNum (real (length received) + 1))])"

definition accept_get ::
  "payload list \<Rightarrow> json option \<Rightarrow> payload list \<times> (string \<times> json) list option" where
  "accept_get received oid =
     (received,
      Some [(''status'', JStr ''FILLED''), (''filledqty'', JNum 10), (''price'', JNum 100)])"

definition reject_post ::
  "payload list \<Rightarrow> payload \<Rightarrow> payload list \<times> (string \<times> json) list option" where
  "reject_post received pl =
     (received @ [pl],
      if p_clientId pl \<in> set (map p_clientId received)
      then Some [(''status'', JStr ''error''), (''message'', JStr ''duplicate client id'')]
      else Some [(''status'', JStr ''success''), (''id'', JNum (real (length received) + 1))])"

definition accepting_broker :: "payload list http" where
  "accepting_broker = \<lparr>post_place = accept_post, get_order = accept_get\<rparr>"

definition rejecting_broker :: "payload list http" where
  "rejecting_broker = \<lparr>post_place = reject_post, get_order = accept_get\<rparr>"

definition client_example :: FyersClient where
  "client_example = \<lparr>access_token = Some ''token''\<rparr>"

definition payload_example :: payload where
  "payload_example =
     \<lparr>p_symbol = ''NSE:SBIN-EQ'', p_qty = 10, p_type = 1, p_side = 1, p_productType = ''MIS'',
      p_priceType = ''0'', p_price = 0, p_clientId = Some ''order_1''\<rparr>"

definition live_fill_example :: "real \<Rightarrow> FillEvent" where
  "live_fill_example n =
     \<lparr>user_id = 1, strategy_id = 1, symbol = ''NSE:SBIN-EQ'', order_id = Some (JNum n),
      fill_quantity = 10, fill_price = 100, commission = (10 * 100) * (5 / 10000),
      is_partial = False\<rparr>"







text \<open>
  The inputs of the test suite and of the scenarios of the specification. \<open>float_example\<close>
  stands for \<open>float\<close> on the strings used here and \<open>loads_example\<close> for \<open>json.loads\<close> on
  three rule sources, named by a tag; any other text is not JSON.
\<close>

definition float_example :: "string \<Rightarrow> real option" where
  "float_example s = (if s = ''70'' then Some 70 else None)"

definition ema_condition :: json where
  "ema_condition = JObj [(''left'', JStr ''EMA(9)''), (''op'', JStr ''>''), (''right'', JStr ''EMA(21)'')]"

definition rule_doc_and :: json where
  "rule_doc_and =
     JObj [(''name'', JStr ''EMA Crossover''),
           (''conditions'', JArr [ema_condition,
              JObj [(''left'', JStr ''RSI(14)''), (''op'', JStr ''<''), (''right'', JNum 70)]]),
           (''operator'', JStr ''AND''),
           (''action'', JStr ''BUY'')]"

definition rule_doc_or :: json where
  "rule_doc_or =
     JObj [(''name'', JStr ''EMA or RSI''),
           (''conditions'', JArr [ema_condition,
              JObj [(''left'', JStr ''RSI(14)''), (''op'', JStr ''>''), (''right'', JNum 70)]]),
           (''operator'', JStr ''OR''),
           (''action'', JStr ''SELL'')]"

definition rule_doc_empty :: json where
  "rule_doc_empty =
     JObj [(''name'', JStr ''No conditions''), (''conditions'', JArr []),
           (''operator'', JStr ''AND''), (''action'', JStr ''BUY'')]"

definition loads_example :: "string \<Rightarrow> json option" where
  "loads_example src =
     (if src = ''and'' then Some rule_doc_and
      else if src = ''or'' then Some rule_doc_or
      else if src = ''empty'' then Some rule_doc_empty
      else None)"

definition snapshot_a :: "string \<rightharpoonup> real" where
  "snapshot_a = [''EMA_9'' \<mapsto> 100, ''EMA_21'' \<mapsto> 99, ''RSI_14'' \<mapsto> 65]"




definition rule_or :: Rule where
  "rule_or =
     \<lparr>name = JStr ''EMA or RSI'',
      conditions = [\<lparr>left = JStr ''EMA(9)'', op = JStr ''>'', right = JStr ''EMA(21)''\<rparr>,
                    \<lparr>left = JStr ''RSI(14)'', op = JStr ''>'', right = JNum 70\<rparr>],
      action = ''SELL'', operator = ''OR''\<rparr>"



definition cross_condition :: RuleCondition where
  "cross_condition = \<lparr>left = JStr ''EMA(9)'', op = JStr ''CROSS_ABOVE'', right = JStr ''EMA(21)''\<rparr>"

definition tick_1 :: "string \<rightharpoonup> real" where
  "tick_1 = [''EMA_9'' \<mapsto> 100, ''EMA_21'' \<mapsto> 99]"

definition tick_2 :: "string \<rightharpoonup> real" where
  "tick_2 = [''EMA_9'' \<mapsto> 101, ''EMA_21'' \<mapsto> 99]"





section \<open>Properties of the risk engine\<close>

lemma risk_consistent_init: "risk_consistent RiskEngine_init"
  by (simp add: risk_consistent_def RiskEngine_init_def)

lemma risk_consistent_register:
  "risk_consistent st \<Longrightarrow> risk_consistent (register_strategy st sid config)"
  by (simp add: risk_consistent_def register_strategy_def)

lemma risk_consistent_record_loss:
  "risk_consistent st \<Longrightarrow> risk_consistent (record_loss st sid loss)"
  by (auto simp: risk_consistent_def record_loss_def split: option.splits)

lemma risk_consistent_record_trade:
  "risk_consistent st \<Longrightarrow> risk_consistent (record_trade st sid)"
  by (auto simp: risk_consistent_def record_trade_def split: option.splits)

lemma risk_consistent_reset_daily:
  "risk_consistent st \<Longrightarrow> risk_consistent (reset_daily st sid)"
  by (auto simp: risk_consistent_def reset_daily_def split: option.splits)

lemma risk_consistent_step: "risk_consistent st \<Longrightarrow> risk_consistent (risk_step st x)"
  by (cases x)
     (simp_all add: risk_consistent_register risk_consistent_record_loss
        risk_consistent_record_trade risk_consistent_reset_daily)

lemma risk_consistent_foldl:
  "risk_consistent st \<Longrightarrow> risk_consistent (foldl risk_step st ops)"
  by (induction ops arbitrary: st) (simp_all add: risk_consistent_step)

text \<open>Every state that the operations build from the initial one is consistent.\<close>

lemma risk_consistent_run: "risk_consistent (risk_run ops)"
  unfolding risk_run_def by (rule risk_consistent_foldl [OF risk_consistent_init])

lemma registered_has_counters:
  assumes "risk_consistent st" and "configs st sid = Some config"
  obtains loss cnt where "daily_loss st sid = Some loss" and "trade_count st sid = Some cnt"
proof -
  from assms have "sid \<in> dom (daily_loss st)" and "sid \<in> dom (trade_count st)"
    by (auto simp: risk_consistent_def)
  then show thesis using that by auto
qed

lemma risk_state_example_consistent: "risk_consistent risk_state_example"
  unfolding risk_state_example_def
  by (intro risk_consistent_record_trade risk_consistent_register risk_consistent_init)

text \<open>
  Claim C1. In a consistent state \<open>validate_signal\<close> checks in a fixed order and stops at the
  first check that fails: a strategy without a configuration is blocked with the reason
  "Strategy not registered"; a registered one has both counters, and is blocked when its daily
  loss has reached \<open>max_daily_loss\<close>, otherwise blocked when its trade count has reached
  \<open>max_trades_per_day\<close>, otherwise allowed. Whenever one of the two limits is reached the
  signal is not allowed.
\<close>

theorem validate_signal_priority:
  assumes "risk_consistent st"
  shows "(configs st (strategy_id sg) = None \<longrightarrow>
            blocked_with (validate_signal st sg) ''Strategy not registered'') \<and>
         (\<forall>config. configs st (strategy_id sg) = Some config \<longrightarrow>
            (\<exists>loss cnt. daily_loss st (strategy_id sg) = Some loss \<and>
               trade_count st (strategy_id sg) = Some cnt \<and>
               (loss \<ge> max_daily_loss config \<longrightarrow>
                  blocked_with (validate_signal st sg) ''Daily loss limit reached: '') \<and>
               (loss < max_daily_loss config \<and> cnt \<ge> max_trades_per_day config \<longrightarrow>
                  blocked_with (validate_signal st sg) ''Max trades per day reached: '') \<and>
               (loss < max_daily_loss config \<and> cnt < max_trades_per_day config \<longrightarrow>
                  is_allowed (validate_signal st sg)) \<and>
               (loss \<ge> max_daily_loss config \<or> cnt \<ge> max_trades_per_day config \<longrightarrow>
                  \<not> is_allowed (validate_signal st sg))))"
proof (intro conjI allI impI)
  assume "configs st (strategy_id sg) = None"
  then show "blocked_with (validate_signal st sg) ''Strategy not registered''"
    by (simp add: validate_signal_def blocked_with_def Let_def)
next
  fix config
  assume c: "configs st (strategy_id sg) = Some config"
  from assms c obtain loss cnt
    where l: "daily_loss st (strategy_id sg) = Some loss"
      and t: "trade_count st (strategy_id sg) = Some cnt"
    by (rule registered_has_counters)
  show "\<exists>loss cnt. daily_loss st (strategy_id sg) = Some loss \<and>
               trade_count st (strategy_id sg) = Some cnt \<and>
               (loss \<ge> max_daily_loss config \<longrightarrow>
                  blocked_with (validate_signal st sg) ''Daily loss limit reached: '') \<and>
               (loss < max_daily_loss config \<and> cnt \<ge> max_trades_per_day config \<longrightarrow>
                  blocked_with (validate_signal st sg) ''Max trades per day reached: '') \<and>
               (loss < max_daily_loss config \<and> cnt < max_trades_per_day config \<longrightarrow>
                  is_allowed (validate_signal st sg)) \<and>
               (loss \<ge> max_daily_loss config \<or> cnt \<ge> max_trades_per_day config \<longrightarrow>
                  \<not> is_allowed (validate_signal st sg))"
    using c l t
    by (intro exI [of _ loss] exI [of _ cnt])
       (auto simp: validate_signal_def blocked_with_def is_allowed_def Let_def split: if_splits)
qed

theorem validate_signal_priority_witness:
  "risk_consistent risk_state_example \<and>
   configs risk_state_example (strategy_id signal_example) \<noteq> None \<and>
   blocked_with (validate_signal risk_state_example signal_example)
     ''Max trades per day reached: '' \<and>
   \<not> is_allowed (validate_signal risk_state_example signal_example)"
  using risk_state_example_consistent
    validate_signal_priority [OF risk_state_example_consistent, of signal_example]
  by (simp add: risk_state_example_def signal_example_def record_trade_def
        register_strategy_def RiskEngine_init_def RiskConfig_default_def)

text \<open>
  Claim C10. In a consistent state, \<open>record_trade\<close>, \<open>record_loss\<close> and \<open>reset_daily\<close> on a
  strategy that is not registered return the state as it was, for every amount of loss: no
  counter is created or changed, and none of the three can raise.
\<close>

theorem unregistered_updates_change_nothing:
  assumes "risk_consistent st" and "sid \<notin> dom (configs st)"
  shows "record_trade st sid = st \<and> record_loss st sid loss = st \<and> reset_daily st sid = st"
proof -
  from assms have "daily_loss st sid = None" and "trade_count st sid = None"
    by (auto simp: risk_consistent_def)
  then show ?thesis
    by (simp add: record_trade_def record_loss_def reset_daily_def)
qed

theorem unregistered_updates_change_nothing_witness:
  "risk_consistent risk_state_example \<and> 7 \<notin> dom (configs risk_state_example) \<and>
   record_trade risk_state_example 7 = risk_state_example \<and>
   record_loss risk_state_example 7 250 = risk_state_example \<and>
   reset_daily risk_state_example 7 = risk_state_example"
proof -
  have u: "7 \<notin> dom (configs risk_state_example)"
    by (simp add: risk_state_example_def record_trade_def register_strategy_def
          RiskEngine_init_def split: option.splits)
  show ?thesis
    using risk_state_example_consistent u
      unregistered_updates_change_nothing [OF risk_state_example_consistent u, of 250]
    by simp
qed

section \<open>Properties of the kill switch\<close>

lemma cancel_loop_eq:
  "cancel_loop uid rows n =
     (map (\<lambda>row. if is_active_order uid row then row\<lparr>o_status := CANCELED\<rparr> else row) rows,
      n + int (length (filter (is_active_order uid) rows)))"
  by (induction rows arbitrary: n) simp_all

lemma is_active_order_iff:
  "is_active_order uid row \<longleftrightarrow>
     o_user_id row = uid \<and> o_status row \<in> {CREATED, VALIDATED, SENT, ACK, PARTIAL}"
  by (simp add: is_active_order_def active_states_def)

text \<open>
  Claim C2. The scope of the kill switch is a user. After \<open>activate_kill_switch\<close> the table
  has the same rows in the same places; every row of that user whose status was one of
  CREATED, VALIDATED, SENT, ACK, PARTIAL is the same row with status CANCELED; every row in a
  terminal status, and every row of another user, is unchanged; and the count that is returned
  is the number of rows of that user that were in one of the five states.
\<close>

theorem kill_switch_cancels_active:
  assumes "activate_kill_switch uid db = (db', resp)"
  shows "length db' = length db \<and>
         (\<forall>i < length db.
            (o_user_id (db ! i) = uid \<and>
             o_status (db ! i) \<in> {CREATED, VALIDATED, SENT, ACK, PARTIAL} \<longrightarrow>
               db' ! i = (db ! i)\<lparr>o_status := CANCELED\<rparr>) \<and>
            (o_status (db ! i) \<in> {FILLED, REJECTED, CANCELED} \<longrightarrow> db' ! i = db ! i) \<and>
            (o_user_id (db ! i) \<noteq> uid \<longrightarrow> db' ! i = db ! i)) \<and>
         orders_cancelled resp =
           int (length (filter (\<lambda>row. o_user_id row = uid \<and>
                  o_status row \<in> {CREATED, VALIDATED, SENT, ACK, PARTIAL}) db))"
proof -
  let ?f = "\<lambda>row. if is_active_order uid row then row\<lparr>o_status := CANCELED\<rparr> else row"
  from assms have db': "db' = map ?f db"
    and n: "orders_cancelled resp = int (length (filter (is_active_order uid) db))"
    by (auto simp: activate_kill_switch_def cancel_loop_eq)
  have len: "length db' = length db" by (simp add: db')
  have rows: "\<forall>i < length db.
            (o_user_id (db ! i) = uid \<and>
             o_status (db ! i) \<in> {CREATED, VALIDATED, SENT, ACK, PARTIAL} \<longrightarrow>
               db' ! i = (db ! i)\<lparr>o_status := CANCELED\<rparr>) \<and>
            (o_status (db ! i) \<in> {FILLED, REJECTED, CANCELED} \<longrightarrow> db' ! i = db ! i) \<and>
            (o_user_id (db ! i) \<noteq> uid \<longrightarrow> db' ! i = db ! i)"
    by (auto simp: db' is_active_order_iff)
  have cnt: "filter (is_active_order uid) db =
        filter (\<lambda>row. o_user_id row = uid \<and>
                  o_status row \<in> {CREATED, VALIDATED, SENT, ACK, PARTIAL}) db"
    by (rule filter_cong) (simp_all add: is_active_order_iff)
  from len rows n cnt show ?thesis by simp
qed

theorem kill_switch_cancels_active_witness:
  "activate_kill_switch 7 orders_example =
     ([order_row 1 7 CANCELED, order_row 2 7 FILLED, order_row 3 8 ACK, order_row 4 7 CANCELED],
      \<lparr>ks_status = ''kill_switch_activated'', orders_cancelled = 2\<rparr>) \<and>
   orders_cancelled (snd (activate_kill_switch 7 orders_example)) =
     int (length (filter (\<lambda>row. o_user_id row = 7 \<and>
            o_status row \<in> {CREATED, VALIDATED, SENT, ACK, PARTIAL}) orders_example))"
proof -
  have e: "activate_kill_switch 7 orders_example =
     ([order_row 1 7 CANCELED, order_row 2 7 FILLED, order_row 3 8 ACK, order_row 4 7 CANCELED],
      \<lparr>ks_status = ''kill_switch_activated'', orders_cancelled = 2\<rparr>)"
    by (simp add: activate_kill_switch_def orders_example_def order_row_def
          is_active_order_def active_states_def)
  show ?thesis
    using e kill_switch_cancels_active [OF e] by simp
qed

section \<open>Properties of the paper execution handler\<close>

lemma paper_fill_price:
  "fill_price (paper_execute_order h rnd fraction order) =
     (if side order = ''BUY'' then price order * (1 + slippage_percent h / 100)
      else price order * (1 - slippage_percent h / 100))"
  by (simp add: paper_execute_order_def Let_def)

lemma paper_fill_quantity:
  "fill_quantity (paper_execute_order h rnd fraction order) =
     (if rnd < partial_fill_chance h then quantity order * fraction else quantity order)"
  by (simp add: paper_execute_order_def Let_def)

lemma paper_is_partial:
  "is_partial (paper_execute_order h rnd fraction order) \<longleftrightarrow> rnd < partial_fill_chance h"
  by (simp add: paper_execute_order_def Let_def)

lemma paper_commission:
  "commission (paper_execute_order h rnd fraction order) =
     (fill_quantity (paper_execute_order h rnd fraction order) *
      fill_price (paper_execute_order h rnd fraction order)) * (5 / 10000)"
  by (simp add: paper_execute_order_def Let_def)

text \<open>
  Claim C8. For an order with a price and a quantity that are not negative, a slippage
  between 0 and 100 per cent and draws in their ranges, the paper handler returns one fill
  whose price is the requested price plus the slippage percentage of it for a BUY, and minus
  that for a SELL: at least the requested price for a BUY, at most for a SELL, and strictly
  so when price and slippage are positive. The fill has the whole quantity, or the drawn
  fraction of it when the draw falls below the partial-fill chance; the commission is 5 basis
  points of the filled quantity times the fill price, and is not negative; with a
  partial-fill chance of 0 the fill has the whole quantity and is not partial. The witness is
  Scenario D: BUY MARKET, 10 units at 100, filled at 100.05.
\<close>

theorem paper_fill_against_taker:
  assumes p: "0 \<le> price order" and q: "0 \<le> quantity order"
    and s0: "0 \<le> slippage_percent h" and s1: "slippage_percent h \<le> 100"
    and r: "0 \<le> rnd" and f: "1 / 2 \<le> fraction"
  shows "(side order = ''BUY'' \<longrightarrow>
            fill_price (paper_execute_order h rnd fraction order) =
              price order + price order * slippage_percent h / 100 \<and>
            price order \<le> fill_price (paper_execute_order h rnd fraction order)) \<and>
         (side order = ''SELL'' \<longrightarrow>
            fill_price (paper_execute_order h rnd fraction order) =
              price order - price order * slippage_percent h / 100 \<and>
            fill_price (paper_execute_order h rnd fraction order) \<le> price order) \<and>
         (0 < price order \<and> 0 < slippage_percent h \<longrightarrow>
            (side order = ''BUY'' \<longrightarrow>
               price order < fill_price (paper_execute_order h rnd fraction order)) \<and>
            (side order = ''SELL'' \<longrightarrow>
               fill_price (paper_execute_order h rnd fraction order) < price order)) \<and>
         fill_quantity (paper_execute_order h rnd fraction order) =
           (if rnd < partial_fill_chance h then quantity order * fraction else quantity order) \<and>
         (is_partial (paper_execute_order h rnd fraction order) \<longleftrightarrow>
            rnd < partial_fill_chance h) \<and>
         commission (paper_execute_order h rnd fraction order) =
           (fill_quantity (paper_execute_order h rnd fraction order) *
            fill_price (paper_execute_order h rnd fraction order)) * (5 / 10000) \<and>
         0 \<le> commission (paper_execute_order h rnd fraction order) \<and>
         (partial_fill_chance h = 0 \<longrightarrow>
            fill_quantity (paper_execute_order h rnd fraction order) = quantity order \<and>
            \<not> is_partial (paper_execute_order h rnd fraction order))"
proof -
  let ?fill = "paper_execute_order h rnd fraction order"
  have slip: "0 \<le> price order * slippage_percent h / 100"
    using p s0 by simp
  have buy: "side order = ''BUY'' \<longrightarrow>
      fill_price ?fill = price order + price order * slippage_percent h / 100 \<and>
      price order \<le> fill_price ?fill"
    using slip by (simp add: paper_fill_price algebra_simps)
  have sell: "side order = ''SELL'' \<longrightarrow>
      fill_price ?fill = price order - price order * slippage_percent h / 100 \<and>
      fill_price ?fill \<le> price order"
    using slip by (simp add: paper_fill_price algebra_simps)
  have strict: "0 < price order \<and> 0 < slippage_percent h \<longrightarrow>
      (side order = ''BUY'' \<longrightarrow> price order < fill_price ?fill) \<and>
      (side order = ''SELL'' \<longrightarrow> fill_price ?fill < price order)"
  proof (intro impI, elim conjE)
    assume "0 < price order" and "0 < slippage_percent h"
    then have "0 < price order * slippage_percent h / 100" by simp
    then show "(side order = ''BUY'' \<longrightarrow> price order < fill_price ?fill) \<and>
      (side order = ''SELL'' \<longrightarrow> fill_price ?fill < price order)"
      by (simp add: paper_fill_price algebra_simps)
  qed
  have fp: "0 \<le> fill_price ?fill"
    using p s0 s1 by (simp add: paper_fill_price)
  have fq: "0 \<le> fill_quantity ?fill"
    using q f by (simp add: paper_fill_quantity)
  have comm: "0 \<le> commission ?fill"
    using fp fq by (simp add: paper_commission)
  have full: "partial_fill_chance h = 0 \<longrightarrow>
      fill_quantity ?fill = quantity order \<and> \<not> is_partial ?fill"
    using r by (simp add: paper_fill_quantity paper_is_partial)
  have qty: "fill_quantity ?fill =
      (if rnd < partial_fill_chance h then quantity order * fraction else quantity order)"
    by (rule paper_fill_quantity)
  have part: "is_partial ?fill \<longleftrightarrow> rnd < partial_fill_chance h"
    by (rule paper_is_partial)
  have c: "commission ?fill = (fill_quantity ?fill * fill_price ?fill) * (5 / 10000)"
    by (rule paper_commission)
  from buy sell strict qty part c comm full show ?thesis
    by (intro conjI)
qed

theorem paper_fill_against_taker_witness:
  "0 \<le> price buy_order_example \<and> 0 \<le> quantity buy_order_example \<and>
   0 \<le> slippage_percent paper_no_partial \<and> slippage_percent paper_no_partial \<le> 100 \<and>
   (0::real) \<le> 3 / 10 \<and> (1::real) / 2 \<le> 7 / 10 \<and>
   fill_quantity (paper_execute_order paper_no_partial (3 / 10) (7 / 10) buy_order_example) = 10 \<and>
   fill_price (paper_execute_order paper_no_partial (3 / 10) (7 / 10) buy_order_example) =
     2001 / 20 \<and>
   100 < fill_price (paper_execute_order paper_no_partial (3 / 10) (7 / 10) buy_order_example) \<and>
   commission (paper_execute_order paper_no_partial (3 / 10) (7 / 10) buy_order_example) =
     2001 / 4000 \<and>
   \<not> is_partial (paper_execute_order paper_no_partial (3 / 10) (7 / 10) buy_order_example)"
proof -
  have p: "0 \<le> price buy_order_example" and q: "0 \<le> quantity buy_order_example"
    by (simp_all add: buy_order_example_def)
  have s0: "0 \<le> slippage_percent paper_no_partial"
    and s1: "slippage_percent paper_no_partial \<le> 100"
    by (simp_all add: paper_no_partial_def PaperExecutionHandler_init_def)
  have r: "(0::real) \<le> 3 / 10" and f: "(1::real) / 2 \<le> 7 / 10" by simp_all
  have c: "partial_fill_chance paper_no_partial = 0"
    and s: "slippage_percent paper_no_partial = 5 / 100"
    and b: "side buy_order_example = ''BUY''"
    and v: "price buy_order_example = 100" "quantity buy_order_example = 10"
    by (simp_all add: paper_no_partial_def PaperExecutionHandler_init_def buy_order_example_def)
  let ?fill = "paper_execute_order paper_no_partial (3 / 10) (7 / 10) buy_order_example"
  note t = paper_fill_against_taker [OF p q s0 s1 r f]
  from t b v s have fp: "fill_price ?fill = 2001 / 20" by simp
  from t c have fq: "fill_quantity ?fill = 10" and np: "\<not> is_partial ?fill"
    by (simp_all add: v)
  from t have "commission ?fill = (fill_quantity ?fill * fill_price ?fill) * (5 / 10000)"
    by blast
  then have cm: "commission ?fill = 2001 / 4000"
    by (simp add: fp fq)
  show ?thesis
    using p q s0 s1 fp fq np cm by simp
qed

section \<open>Properties of the fill handler\<close>

lemma sell_fill_example_eq:
  "sell_fill_example =
     \<lparr>user_id = 1, strategy_id = 1, symbol = ''NSE:SBIN-EQ'', order_id = Some (JStr ''order_1''),
      fill_quantity = 10, fill_price = 100 * (1 - (5 / 100) / 100),
      commission = (10 * (100 * (1 - (5 / 100) / 100))) * (5 / 10000), is_partial = False\<rparr>"
  by (simp add: sell_fill_example_def paper_execute_order_def paper_no_partial_def
        PaperExecutionHandler_init_def sell_order_example_def buy_order_example_def Let_def)

text \<open>
  Claim C6 fails on the code. The fill that the paper handler returns for a SELL order of 10
  units carries the quantity 10, and the fill handler adds it: the position goes from nothing
  to 10, not to -10. The handler calls \<open>record_trade\<close> only: the fill has a positive
  commission and the accumulated loss of the strategy stays 0.
\<close>

theorem sell_fill_increases_position:
  "side sell_order_example = ''SELL'' \<and>
   positions engine_example ''NSE:SBIN-EQ'' = None \<and>
   positions (on_fill_event engine_example sell_fill_example) ''NSE:SBIN-EQ'' = Some 10 \<and>
   positions (on_fill_event engine_example sell_fill_example) ''NSE:SBIN-EQ'' \<noteq> Some (0 - 10) \<and>
   0 < commission sell_fill_example \<and>
   daily_loss (risk_engine (on_fill_event engine_example sell_fill_example)) 1 = Some 0"
  by (simp add: sell_fill_example_eq on_fill_event_def engine_example_def TradingEngine_init_def
        sell_order_example_def buy_order_example_def record_trade_def register_strategy_def
        RiskEngine_init_def)

lemma on_fill_positions:
  "positions (on_fill_event eng event) =
     (positions eng)(symbol event \<mapsto>
        (case positions eng (symbol event) of None \<Rightarrow> 0 | Some q \<Rightarrow> q) + fill_quantity event)"
  by (simp add: on_fill_event_def Let_def)

lemma on_fill_risk:
  "risk_engine (on_fill_event eng event) = record_trade (risk_engine eng) (strategy_id event)"
  by (simp add: on_fill_event_def Let_def)

lemma record_trade_daily_loss: "daily_loss (record_trade st sid) = daily_loss st"
  by (simp add: record_trade_def split: option.splits)

lemma record_trade_configs: "configs (record_trade st sid) = configs st"
  by (simp add: record_trade_def split: option.splits)

text \<open>
  Claim C6, amended. The fill handler adds the quantity that the fill carries to the position
  of the fill's symbol, an absent position counting as 0, and changes no other position; it
  feeds \<open>record_trade\<close> back into the risk engine, so the trade count of a registered
  strategy grows by one and no other count changes; it does not call \<open>record_loss\<close>: the
  accumulated losses and the configurations are as before.
\<close>

theorem fill_adds_quantity_and_records_trade:
  "(\<forall>q. positions eng (symbol event) = Some q \<longrightarrow>
      positions (on_fill_event eng event) (symbol event) = Some (q + fill_quantity event)) \<and>
   (positions eng (symbol event) = None \<longrightarrow>
      positions (on_fill_event eng event) (symbol event) = Some (fill_quantity event)) \<and>
   (\<forall>s. s \<noteq> symbol event \<longrightarrow> positions (on_fill_event eng event) s = positions eng s) \<and>
   (\<forall>n. trade_count (risk_engine eng) (strategy_id event) = Some n \<longrightarrow>
      trade_count (risk_engine (on_fill_event eng event)) (strategy_id event) = Some (n + 1)) \<and>
   (\<forall>s. s \<noteq> strategy_id event \<longrightarrow>
      trade_count (risk_engine (on_fill_event eng event)) s = trade_count (risk_engine eng) s) \<and>
   daily_loss (risk_engine (on_fill_event eng event)) = daily_loss (risk_engine eng) \<and>
   configs (risk_engine (on_fill_event eng event)) = configs (risk_engine eng)"
  by (auto simp: on_fill_positions on_fill_risk record_trade_daily_loss record_trade_configs
        record_trade_def split: option.splits)

theorem fill_adds_quantity_and_records_trade_witness:
  "positions engine_example (symbol buy_fill_example) = None \<and>
   positions (on_fill_event engine_example buy_fill_example) (symbol buy_fill_example) = Some 10 \<and>
   trade_count (risk_engine engine_example) (strategy_id buy_fill_example) = Some 0 \<and>
   trade_count (risk_engine (on_fill_event engine_example buy_fill_example))
     (strategy_id buy_fill_example) = Some 1 \<and>
   positions (on_fill_event (on_fill_event engine_example buy_fill_example) buy_fill_example)
     (symbol buy_fill_example) = Some 20"
proof -
  have a: "positions engine_example (symbol buy_fill_example) = None"
    by (simp add: engine_example_def TradingEngine_init_def)
  have b: "trade_count (risk_engine engine_example) (strategy_id buy_fill_example) = Some 0"
    by (simp add: engine_example_def TradingEngine_init_def register_strategy_def
          buy_fill_example_def paper_execute_order_def buy_order_example_def Let_def)
  have q: "fill_quantity buy_fill_example = 10"
    by (simp add: buy_fill_example_def paper_execute_order_def paper_no_partial_def
          PaperExecutionHandler_init_def buy_order_example_def Let_def)
  show ?thesis
    using a b q
      fill_adds_quantity_and_records_trade [of engine_example buy_fill_example]
      fill_adds_quantity_and_records_trade
        [of "on_fill_event engine_example buy_fill_example" buy_fill_example]
    by simp
qed

section \<open>Properties of the live execution handler\<close>

lemma py_int_10: "py_int 10 = 10"
  by (simp add: py_int_def)

text \<open>
  Claim C7 fails on the code. The handler keeps no record of the identifiers it has
  submitted. With a broker that accepts every placement, the same order, with the same
  \<open>client_order_id\<close>, is placed twice and filled twice: after the second call the broker has
  received two placements with the identifier \<open>order_1\<close>.
\<close>

theorem same_client_order_id_fills_twice:
  "live_execute_order accepting_broker ''0123456789abcdef'' client_example [] buy_order_example =
     Inr ([payload_example], buy_order_example\<lparr>broker_order_id := Some (JNum 1)\<rparr>,
          Some (live_fill_example 1)) \<and>
   client_order_id (buy_order_example\<lparr>broker_order_id := Some (JNum 1)\<rparr>) = Some ''order_1'' \<and>
   live_execute_order accepting_broker ''0123456789abcdef'' client_example [payload_example]
       (buy_order_example\<lparr>broker_order_id := Some (JNum 1)\<rparr>) =
     Inr ([payload_example, payload_example],
          buy_order_example\<lparr>broker_order_id := Some (JNum 2)\<rparr>,
          Some (live_fill_example 2)) \<and>
   map p_clientId [payload_example, payload_example] = [Some ''order_1'', Some ''order_1'']"
  by (simp add: live_execute_order_def place_order_def get_order_status_def falsy_def
        accepting_broker_def accept_post_def accept_get_def client_example_def
        buy_order_example_def payload_example_def live_fill_example_def obj_get_def
        obj_get_default_def number_of_def py_int_10 Let_def)

lemma place_order_posts:
  assumes "\<not> falsy (access_token client)" and "\<not> falsy (client_order_id order)"
    and "post_place net srv (order_payload order) = (srv', answer)"
  shows "place_order net client srv (symbol order) (order_type order) (side order)
           (py_int (quantity order)) (if order_type order = ''LIMIT'' then price order else 0)
           (client_order_id order) =
         (srv', case answer of None \<Rightarrow> request_failed | Some order_data \<Rightarrow> order_data)"
  using assms by (simp add: place_order_def order_payload_def Let_def split: option.splits)

lemma live_execute_without_token:
  assumes "falsy (access_token client)"
  shows "live_execute_order net fresh client srv order =
     Inr (srv,
          if falsy (client_order_id order)
          then order\<lparr>client_order_id := Some (''order_'' @ take 12 fresh)\<rparr> else order,
          None)"
  using assms
  by (simp add: live_execute_order_def place_order_def not_authenticated_def obj_get_def Let_def)

text \<open>
  Claim C7, amended. With an access token, the handler posts every submission to the broker,
  as a placement that carries the order's \<open>client_order_id\<close>. When the request fails, or the
  answer of the broker does not have the status "success", the submission yields no fill and
  the order is left as it was. So a repeated identifier gives no second fill when the broker
  refuses it. (Without an access token nothing is posted and there is no fill either.)
\<close>

theorem rejected_placement_gives_no_fill:
  assumes auth: "\<not> falsy (access_token client)"
    and cid: "\<not> falsy (client_order_id order)"
    and post: "post_place net srv (order_payload order) = (srv', answer)"
    and rej: "\<forall>res. answer = Some res \<longrightarrow> obj_get res ''status'' \<noteq> Some (JStr ''success'')"
  shows "live_execute_order net fresh client srv order = Inr (srv', order, None)"
proof -
  let ?result = "case answer of None \<Rightarrow> request_failed | Some order_data \<Rightarrow> order_data"
  have st: "obj_get ?result ''status'' \<noteq> Some (JStr ''success'')"
    using rej by (cases answer) (simp_all add: request_failed_def obj_get_def)
  have pl: "place_order net client srv (symbol order) (order_type order) (side order)
           (py_int (quantity order)) (if order_type order = ''LIMIT'' then price order else 0)
           (client_order_id order) = (srv', ?result)"
    by (rule place_order_posts [OF auth cid post])
  show ?thesis
    unfolding live_execute_order_def using cid st by (simp add: pl Let_def)
qed

theorem rejected_placement_gives_no_fill_witness:
  "\<not> falsy (access_token client_example) \<and> \<not> falsy (client_order_id buy_order_example) \<and>
   post_place rejecting_broker [payload_example] (order_payload buy_order_example) =
     ([payload_example, payload_example],
      Some [(''status'', JStr ''error''), (''message'', JStr ''duplicate client id'')]) \<and>
   live_execute_order rejecting_broker ''0123456789abcdef'' client_example [payload_example]
       buy_order_example =
     Inr ([payload_example, payload_example], buy_order_example, None)"
proof -
  have auth: "\<not> falsy (access_token client_example)"
    by (simp add: falsy_def client_example_def)
  have cid: "\<not> falsy (client_order_id buy_order_example)"
    by (simp add: falsy_def buy_order_example_def)
  have post: "post_place rejecting_broker [payload_example] (order_payload buy_order_example) =
     ([payload_example, payload_example],
      Some [(''status'', JStr ''error''), (''message'', JStr ''duplicate client id'')])"
    by (simp add: rejecting_broker_def reject_post_def order_payload_def buy_order_example_def
          payload_example_def py_int_10)
  have rej: "\<forall>res. Some [(''status'', JStr ''error''), (''message'', JStr ''duplicate client id'')]
               = Some res \<longrightarrow> obj_get res ''status'' \<noteq> Some (JStr ''success'')"
    by (simp add: obj_get_def)
  show ?thesis
    using auth cid post
      rejected_placement_gives_no_fill [OF auth cid post rej, of "''0123456789abcdef''"]
    by simp
qed

section \<open>Properties of the rule engine\<close>










lemma parse_or: "parse_rule_json loads_example ''or'' = Some rule_or"
  by (simp add: parse_rule_json_def loads_example_def rule_doc_or_def ema_condition_def
        Rule_init_def conditions_of_json_def condition_of_json_def obj_get_def
        obj_get_default_def upper_def upper_char_def rule_or_def)








lemma evaluate_items_entries:
  "evaluate_items pf items data = Inr res \<Longrightarrow>
     res = map (\<lambda>(rule_id, r).
             (rule_id, if rule_evaluate pf r data = Inr True then ''BUY'' else ''NONE'')) items"
proof (induction items arbitrary: res)
  case Nil
  then show ?case by simp
next
  case (Cons item items)
  obtain rule_id r where item: "item = (rule_id, r)" by (cases item)
  from Cons.prems obtain b rest
    where b: "rule_evaluate pf r data = Inr b"
      and rest: "evaluate_items pf items data = Inr rest"
      and res: "res = (rule_id, if b then ''BUY'' else ''NONE'') # rest"
    by (auto simp: item split: sum.splits)
  from Cons.IH [OF rest] b res show ?case
    by (simp add: item)
qed

text \<open>
  Claim C4, evaluated on the code. The rule of the test \<open>test_rule_engine_or_operator\<close> has
  the action SELL and fires on the snapshot: \<open>evaluate\<close> returns SELL for it, as the test
  asserts, and \<open>evaluate_all\<close> maps it to BUY.
\<close>

theorem evaluate_all_reports_buy_for_sell_rule:
  "parse_rule_json loads_example ''or'' = Some rule_or \<and> action rule_or = ''SELL'' \<and>
   evaluate float_example (fst (register_rule loads_example RuleEngine_init 1 ''or'')) 1
     snapshot_a = Inr ''SELL'' \<and>
   evaluate_all float_example (fst (register_rule loads_example RuleEngine_init 1 ''or''))
     snapshot_a = Inr [(1, ''BUY'')]"
  by (simp add: parse_or register_rule_def RuleEngine_init_def evaluate_def evaluate_all_def
        rule_evaluate_def rule_or_def condition_evaluate_def resolve_value_def float_example_def
        data_key_def indicator_key_def snapshot_a_def upper_def upper_char_def)

lemma cross_above_is_greater:
  "condition_evaluate pf (c\<lparr>op := JStr ''CROSS_ABOVE''\<rparr>) data =
   condition_evaluate pf (c\<lparr>op := JStr ''>''\<rparr>) data"
  by (simp add: condition_evaluate_def cross_above_def upper_def upper_char_def
        split: sum.splits option.splits)

lemma cross_below_is_less:
  "condition_evaluate pf (c\<lparr>op := JStr ''CROSS_BELOW''\<rparr>) data =
   condition_evaluate pf (c\<lparr>op := JStr ''<''\<rparr>) data"
  by (simp add: condition_evaluate_def cross_below_def upper_def upper_char_def
        split: sum.splits option.splits)

text \<open>
  Claim C5, evaluated on the code. On two successive ticks on which EMA(9) is above EMA(21),
  the condition CROSS_ABOVE is true on both, exactly as the comparison > is: no state of the
  previous tick is kept, and the second tick fires again.
\<close>

theorem cross_above_fires_on_every_tick:
  "map (condition_evaluate float_example cross_condition) [tick_1, tick_2] = [Inr True, Inr True] \<and>
   map (condition_evaluate float_example (cross_condition\<lparr>op := JStr ''>''\<rparr>)) [tick_1, tick_2] =
     [Inr True, Inr True]"
  by (simp add: cross_condition_def condition_evaluate_def resolve_value_def float_example_def
        data_key_def indicator_key_def tick_1_def tick_2_def cross_above_def upper_def
        upper_char_def)






end
